theory Spec2Isabelle
  imports Complex_Main
begin

section \<open>Data model of the screen canvas\<close>

text \<open>
  The component under study is \<open>ScreenCanvas\<close> (the second module of
  \<open>XPathPlayground.tsx\<close>) together with the type declarations of the repository.
  A JavaScript \<open>number\<close> that arrives from JSON, from the DOM or from the pointer is
  finite and is modelled as a \<open>real\<close>: arithmetic is exact (no rounding, no overflow) and
  the two zeros are identified. Values computed by an unguarded division can be infinite
  or NaN in JavaScript; those are modelled by the type \<open>jsnum\<close> further down.

  Record fields carry a short prefix, since the source's field names \<open>x\<close>, \<open>y\<close>, \<open>w\<close>,
  \<open>h\<close>, \<open>width\<close> and \<open>height\<close> are shared by several interfaces.
\<close>

record BoundsComputed =
  b_x :: real
  b_y :: real
  b_w :: real
  b_h :: real

text \<open>The attributes of \<open>NodeAttributes\<close> that the canvas reads; every one is optional.\<close>

record NodeAttributes =
  text_attr :: "string option"
  resource_id :: "string option"
  content_desc :: "string option"
  clickable :: "string option"
  focusable :: "string option"
  scrollable :: "string option"
  long_clickable :: "string option"
  visible :: "string option"
  bounds_computed :: "BoundsComputed option"

datatype HierarchyNode =
  HierarchyNode (tag: string) (attributes: NodeAttributes) (children: "HierarchyNode list")

record DeviceInfo =
  serial :: string
  d_width :: real
  d_height :: real
  platform :: string

text \<open>\<open>frameSize\<close>: the pixel size of the last decoded frame, \<open>(0, 0)\<close> before the first.\<close>

record FrameSize =
  f_width :: real
  f_height :: real

text \<open>The truth value of an optional string in a condition: present and not empty.\<close>

fun truthy :: "string option \<Rightarrow> bool" where
  "truthy None = False"
| "truthy (Some t) = (t \<noteq> [])"

section \<open>Hierarchy fit\<close>

text \<open>
  \<open>estimateHierarchyBounds\<close>: the closure \<open>walk\<close> updates the two local variables
  \<open>maxRight\<close> and \<open>maxBottom\<close>; here it takes them and returns them.
  \<open>n.children?.forEach(walk)\<close> is the fold over the children in order.
\<close>

fun walk :: "HierarchyNode \<Rightarrow> real \<times> real \<Rightarrow> real \<times> real" where
  "walk (HierarchyNode t a cs) (maxRight, maxBottom) =
     fold walk cs
       (case bounds_computed a of
          None \<Rightarrow> (maxRight, maxBottom)
        | Some b \<Rightarrow>
            if b_w b > 0 \<and> b_h b > 0
            then (max maxRight (b_x b + b_w b), max maxBottom (b_y b + b_h b))
            else (maxRight, maxBottom))"

definition estimateHierarchyBounds :: "HierarchyNode \<Rightarrow> real \<times> real" where
  "estimateHierarchyBounds node = walk node (0, 0)"

text \<open>
  \<open>recalcHierarchyFit\<close>, lines 441 to 462: the values of the local variables \<open>fitX\<close> and
  \<open>fitY\<close> just before the clamp, on the path that reaches it. Both divisions are behind a
  guard that makes the divisor positive.
\<close>

definition unclampedFit :: "HierarchyNode \<Rightarrow> DeviceInfo \<Rightarrow> FrameSize \<Rightarrow> real \<times> real" where
  "unclampedFit tree dInfo frame =
     (let (maxRight, maxBottom) = estimateHierarchyBounds tree;
          oversizedX = (maxRight > d_width dInfo * 1.2);
          oversizedY = (maxBottom > d_height dInfo * 1.2)
      in if oversizedX \<or> oversizedY
         then (if f_width frame > 0 \<and> f_height frame > 0
               then (d_width dInfo / f_width frame, d_height dInfo / f_height frame)
               else (d_width dInfo / maxRight, d_height dInfo / maxBottom))
         else (1, 1))"

definition clampFit :: "real \<Rightarrow> real" where
  "clampFit fit = max 0.1 (min 2 fit)"

text \<open>The whole of \<open>recalcHierarchyFit\<close>; the result is the argument of \<open>setHierarchyFit\<close>.\<close>

definition recalcHierarchyFit ::
  "HierarchyNode option \<Rightarrow> DeviceInfo option \<Rightarrow> FrameSize \<Rightarrow> real \<times> real" where
  "recalcHierarchyFit tree dInfo frame =
     (case tree of
        None \<Rightarrow> (1, 1)
      | Some t \<Rightarrow>
          (case dInfo of
             None \<Rightarrow> (1, 1)
           | Some d \<Rightarrow>
               (let (maxRight, maxBottom) = estimateHierarchyBounds t
                in if maxRight \<le> 0 \<or> maxBottom \<le> 0 then (1, 1)
                   else (let (fitX, fitY) = unclampedFit t d frame
                         in (clampFit fitX, clampFit fitY)))))"

text \<open>
  Specification vocabulary: the nodes of a tree in pre-order, and the boxes that count
  for the extent, those with strictly positive width and height.
\<close>

fun nodes :: "HierarchyNode \<Rightarrow> HierarchyNode list" where
  "nodes (HierarchyNode t a cs) = HierarchyNode t a cs # concat (map nodes cs)"

definition positiveBox :: "HierarchyNode \<Rightarrow> BoundsComputed list" where
  "positiveBox n =
     (case bounds_computed (attributes n) of
        None \<Rightarrow> []
      | Some b \<Rightarrow> if b_w b > 0 \<and> b_h b > 0 then [b] else [])"

definition positiveBoxes :: "HierarchyNode \<Rightarrow> BoundsComputed list" where
  "positiveBoxes tree = concat (map positiveBox (nodes tree))"

definition rights :: "HierarchyNode \<Rightarrow> real set" where
  "rights tree = (\<lambda>b. b_x b + b_w b) ` set (positiveBoxes tree)"

definition bottoms :: "HierarchyNode \<Rightarrow> real set" where
  "bottoms tree = (\<lambda>b. b_y b + b_h b) ` set (positiveBoxes tree)"

text \<open>
  Example inputs: the scenario of an iOS device reported in points (375 x 812) whose
  hierarchy is in pixels (1170 x 2532), and a button inside the screen.
\<close>

definition noAttributes :: NodeAttributes where
  "noAttributes =
     \<lparr>text_attr = None, resource_id = None, content_desc = None, clickable = None,
      focusable = None, scrollable = None, long_clickable = None, visible = None,
      bounds_computed = None\<rparr>"

definition box :: "real \<Rightarrow> real \<Rightarrow> real \<Rightarrow> real \<Rightarrow> BoundsComputed" where
  "box x y w h = \<lparr>b_x = x, b_y = y, b_w = w, b_h = h\<rparr>"

definition iosTree :: HierarchyNode where
  "iosTree =
     HierarchyNode ''XCUIElementTypeApplication''
       (noAttributes\<lparr>bounds_computed := Some (box 0 0 1170 2532)\<rparr>)
       [HierarchyNode ''XCUIElementTypeButton''
          (noAttributes\<lparr>clickable := Some ''true'',
                          bounds_computed := Some (box 100 200 200 80)\<rparr>) [],
        HierarchyNode ''XCUIElementTypeOther''
          (noAttributes\<lparr>bounds_computed := Some (box 5000 5000 0 10)\<rparr>) []]"

definition iosDevice :: DeviceInfo where
  "iosDevice = \<lparr>serial = ''00008110'', d_width = 375, d_height = 812, platform = ''ios''\<rparr>"

definition noFrame :: FrameSize where
  "noFrame = \<lparr>f_width = 0, f_height = 0\<rparr>"

section \<open>JavaScript numbers that need not be finite\<close>

text \<open>
  The render scale and the canvas size come out of divisions that no guard protects, so
  they can be \<open>Infinity\<close>, \<open>-Infinity\<close> or \<open>NaN\<close>. \<open>jsnum\<close> adds these three values to the
  finite numbers. The operations follow IEEE 754 as JavaScript exposes it, with exact
  arithmetic on finite values and a single zero (so \<open>x / 0\<close> takes its sign from \<open>x\<close>).
\<close>

datatype jsnum = Num real | PosInf | NegInf | NaN

fun js_div :: "jsnum \<Rightarrow> jsnum \<Rightarrow> jsnum" where
  "js_div (Num a) (Num b) =
     (if b \<noteq> 0 then Num (a / b)
      else if a > 0 then PosInf else if a < 0 then NegInf else NaN)"
| "js_div (Num a) PosInf = Num 0"
| "js_div (Num a) NegInf = Num 0"
| "js_div PosInf (Num b) = (if b < 0 then NegInf else PosInf)"
| "js_div NegInf (Num b) = (if b < 0 then PosInf else NegInf)"
| "js_div _ _ = NaN"

fun js_mul :: "jsnum \<Rightarrow> jsnum \<Rightarrow> jsnum" where
  "js_mul (Num a) (Num b) = Num (a * b)"
| "js_mul (Num a) PosInf = (if a > 0 then PosInf else if a < 0 then NegInf else NaN)"
| "js_mul (Num a) NegInf = (if a > 0 then NegInf else if a < 0 then PosInf else NaN)"
| "js_mul PosInf (Num b) = (if b > 0 then PosInf else if b < 0 then NegInf else NaN)"
| "js_mul NegInf (Num b) = (if b > 0 then NegInf else if b < 0 then PosInf else NaN)"
| "js_mul PosInf PosInf = PosInf"
| "js_mul NegInf NegInf = PosInf"
| "js_mul PosInf NegInf = NegInf"
| "js_mul NegInf PosInf = NegInf"
| "js_mul _ _ = NaN"

text \<open>\<open>a < b\<close> of JavaScript: false as soon as one side is \<open>NaN\<close>.\<close>

fun js_lt :: "jsnum \<Rightarrow> jsnum \<Rightarrow> bool" where
  "js_lt (Num a) (Num b) = (a < b)"
| "js_lt NaN _ = False"
| "js_lt _ NaN = False"
| "js_lt _ NegInf = False"
| "js_lt PosInf _ = False"
| "js_lt NegInf _ = True"
| "js_lt _ PosInf = True"

definition js_gt :: "jsnum \<Rightarrow> jsnum \<Rightarrow> bool" where
  "js_gt a b = js_lt b a"

text \<open>\<open>Math.min\<close> of two arguments; of three it is the nesting, \<open>NaN\<close> being absorbing.\<close>

fun Math_min :: "jsnum \<Rightarrow> jsnum \<Rightarrow> jsnum" where
  "Math_min NaN _ = NaN"
| "Math_min _ NaN = NaN"
| "Math_min a b = (if js_lt b a then b else a)"

definition Math_min3 :: "jsnum \<Rightarrow> jsnum \<Rightarrow> jsnum \<Rightarrow> jsnum" where
  "Math_min3 a b c = Math_min (Math_min a b) c"

text \<open>\<open>Math.round\<close>: the nearest integer, halves towards \<open>+Infinity\<close>; the identity on
  the non-finite values.\<close>

fun Math_round :: "jsnum \<Rightarrow> jsnum" where
  "Math_round (Num a) = Num (of_int \<lfloor>a + 1 / 2\<rfloor>)"
| "Math_round v = v"

text \<open>What \<open>Number.isInteger\<close> answers: finite and equal to its floor.\<close>

fun isInteger :: "jsnum \<Rightarrow> bool" where
  "isInteger (Num a) = (of_int \<lfloor>a\<rfloor> = a)"
| "isInteger _ = False"

section \<open>Render scale\<close>

text \<open>
  What \<open>calculateScale\<close> reads from the page: the client width of the container element
  when the ref is attached, and the inner size of the window.
\<close>

record Viewport =
  containerClientWidth :: "real option"
  innerWidth :: real
  innerHeight :: real

definition overhead :: real where
  "overhead = 55 + 16 + 38"

definition availableWidth :: "Viewport \<Rightarrow> real" where
  "availableWidth vp =
     (case containerClientWidth vp of
        Some clientWidth \<Rightarrow> max clientWidth 160
      | None \<Rightarrow> innerWidth vp / 3 - 24)"

definition availableHeight :: "Viewport \<Rightarrow> real" where
  "availableHeight vp = innerHeight vp - 96 - overhead"

text \<open>\<open>calculateScale\<close> returns the arguments of \<open>setScale\<close> and \<open>setCanvasSize\<close>.\<close>

definition calculateScale :: "Viewport \<Rightarrow> real \<Rightarrow> real \<Rightarrow> jsnum \<times> (jsnum \<times> jsnum)" where
  "calculateScale vp deviceWidth deviceHeight =
     (let scaleX = js_div (Num (availableWidth vp)) (Num deviceWidth);
          scaleY = js_div (Num (availableHeight vp)) (Num deviceHeight);
          newScale = Math_min3 scaleX scaleY (Num 1.2)
      in (newScale, (js_mul (Num deviceWidth) newScale, js_mul (Num deviceHeight) newScale)))"

text \<open>
  The render scale of the specification, on the device sizes where both ratios are
  finite: \<open>min(rw/dw, rh/dh, 1.2)\<close>.
\<close>

definition renderScale :: "real \<Rightarrow> real \<Rightarrow> real \<Rightarrow> real \<Rightarrow> real" where
  "renderScale rw rh dw dh = min (rw / dw) (min (rh / dh) 1.2)"

text \<open>Example viewport: a desktop window that leaves 360 by 800 for the canvas.\<close>

definition desktop :: Viewport where
  "desktop = \<lparr>containerClientWidth = Some 360, innerWidth = 1440, innerHeight = 1005\<rparr>"

section \<open>State of the screen canvas\<close>

text \<open>
  A \<open>WebSocket\<close> object of the browser, as far as the component observes it.
  \<open>ws_serial\<close> is the \<open>deviceSerial\<close> that the handlers of the socket closed over when
  \<open>openNewWs\<close> created it. \<open>closeListeners\<close> holds the \<open>onPrevClose\<close> listeners added with
  \<open>addEventListener('close', ...)\<close>, each one named by the \<open>deviceSerial\<close> of the effect
  run that added it.
\<close>

datatype ReadyState = CONNECTING | OPEN | CLOSING | CLOSED

record WebSocket =
  ws_serial :: string
  readyState :: ReadyState
  closeListeners :: "string list"

record TapStart =
  ts_x :: jsnum
  ts_y :: jsnum
  ts_canvasX :: real
  ts_canvasY :: real

record SwipeArrow =
  a_x1 :: real
  a_y1 :: real
  a_x2 :: real
  a_y2 :: real

record Coordinate =
  c_x :: jsnum
  c_y :: jsnum
  c_canvasX :: real
  c_canvasY :: real

text \<open>
  The props, the React state and the refs of \<open>ScreenCanvas\<close> that the handlers below
  read or write. \<open>sockets\<close> is the store of the sockets created so far, a socket being
  referred to by its index, so \<open>wsRef\<close> holds an index of the store or nothing; \<open>timers\<close> holds the pending two-second reconnect timeouts,
  each named by the \<open>deviceSerial\<close> of its closure. \<open>coordinate\<close> is the parent's
  readout, which \<open>onCoordinateUpdate\<close> sets; \<open>onTap\<close> tells whether that prop is given.
\<close>

record ScreenCanvas =
  deviceSerial :: "string option"
  onTap :: bool
  coordinate :: "Coordinate option"
  deviceInfo :: "DeviceInfo option"
  imageUrl :: "string option"
  loading :: bool
  canvasSize :: "jsnum \<times> jsnum"
  scale :: jsnum
  isConnected :: bool
  frameSize :: FrameSize
  wsRef :: "nat option"
  currentSerialRef :: "string option"
  imageUrlRef :: "string option"
  frameRecvTsRef :: real
  tapMode :: bool
  tapStartRef :: "TapStart option"
  swipeArrow :: "SwipeArrow option"
  sockets :: "WebSocket list"
  timers :: "string list"

text \<open>The state of a freshly mounted component, as the \<open>useState\<close> and \<open>useRef\<close> calls give it.\<close>

definition mounted :: "string option \<Rightarrow> ScreenCanvas" where
  "mounted dev =
     \<lparr>deviceSerial = dev, onTap = True, coordinate = None, deviceInfo = None, imageUrl = None,
      loading = False, canvasSize = (Num 360, Num 640), scale = Num 1, isConnected = False,
      frameSize = \<lparr>f_width = 0, f_height = 0\<rparr>, wsRef = None, currentSerialRef = None,
      imageUrlRef = None, frameRecvTsRef = 0, tapMode = False, tapStartRef = None,
      swipeArrow = None, sockets = [], timers = []\<rparr>"

text \<open>
  The render function returns the placeholder card when no device is selected and the
  spinner while \<open>loading\<close>; only otherwise is the \<open>Stage\<close> there to receive pointer events.
\<close>

definition stageMounted :: "ScreenCanvas \<Rightarrow> bool" where
  "stageMounted s = (truthy (deviceSerial s) \<and> \<not> loading s)"

section \<open>Pointer gestures\<close>

text \<open>
  What the handlers send out: the two calls of \<open>interactionAPI\<close>, with the serial, and
  the call of the \<open>onTap\<close> prop, which the parent forwards to the element lookup.
\<close>

datatype Request =
  Tap string jsnum jsnum
| Swipe string jsnum jsnum jsnum jsnum real
| OnTap jsnum jsnum

definition SWIPE_THRESHOLD :: real where
  "SWIPE_THRESHOLD = 20"

definition canvasToDevice :: "ScreenCanvas \<Rightarrow> real \<Rightarrow> real \<Rightarrow> jsnum \<times> jsnum" where
  "canvasToDevice s canvasX canvasY =
     (case deviceInfo s of
        None \<Rightarrow> (Num 0, Num 0)
      | Some _ \<Rightarrow>
          (Math_round (js_div (Num canvasX) (scale s)),
           Math_round (js_div (Num canvasY) (scale s))))"

text \<open>
  The second argument of a pointer handler is \<open>stage.getPointerPosition()\<close>, which is
  \<open>null\<close> or a point of the render surface.
\<close>

definition handleMouseMove :: "ScreenCanvas \<Rightarrow> (real \<times> real) option \<Rightarrow> ScreenCanvas" where
  "handleMouseMove s pointerPos =
     (case pointerPos of
        None \<Rightarrow> s
      | Some (px, py) \<Rightarrow>
          (let deviceCoord = canvasToDevice s px py;
               s1 = s\<lparr>coordinate :=
                        Some \<lparr>c_x = fst deviceCoord, c_y = snd deviceCoord,
                              c_canvasX = px, c_canvasY = py\<rparr>\<rparr>
           in case tapStartRef s of
                None \<Rightarrow> s1
              | Some start \<Rightarrow>
                  if tapMode s then
                    (let dx = px - ts_canvasX start; dy = py - ts_canvasY start
                     in if sqrt (dx * dx + dy * dy) > SWIPE_THRESHOLD
                        then s1\<lparr>swipeArrow :=
                                  Some \<lparr>a_x1 = ts_canvasX start, a_y1 = ts_canvasY start,
                                        a_x2 = px, a_y2 = py\<rparr>\<rparr>
                        else s1)
                  else s1))"

definition handleMouseLeave :: "ScreenCanvas \<Rightarrow> ScreenCanvas" where
  "handleMouseLeave s = s\<lparr>coordinate := None, swipeArrow := None\<rparr>"

definition handleMouseDown :: "ScreenCanvas \<Rightarrow> (real \<times> real) option \<Rightarrow> ScreenCanvas" where
  "handleMouseDown s pos =
     (if \<not> tapMode s then s
      else case pos of
             None \<Rightarrow> s
           | Some (px, py) \<Rightarrow>
               (let dc = canvasToDevice s px py
                in s\<lparr>tapStartRef :=
                       Some \<lparr>ts_x = fst dc, ts_y = snd dc, ts_canvasX = px, ts_canvasY = py\<rparr>,
                     swipeArrow := None\<rparr>))"

text \<open>\<open>handleMouseUp\<close> returns the new state and the request it sends, if any.\<close>

definition handleMouseUp ::
  "ScreenCanvas \<Rightarrow> (real \<times> real) option \<Rightarrow> ScreenCanvas \<times> Request option" where
  "handleMouseUp s pos =
     (case tapStartRef s of
        None \<Rightarrow> (s, None)
      | Some start \<Rightarrow>
          if \<not> tapMode s then (s, None)
          else case pos of
                 None \<Rightarrow> (s, None)
               | Some (px, py) \<Rightarrow>
                   (let dx = px - ts_canvasX start;
                        dy = py - ts_canvasY start;
                        dist = sqrt (dx * dx + dy * dy);
                        s1 = s\<lparr>tapStartRef := None, swipeArrow := None\<rparr>
                    in case deviceSerial s of
                         None \<Rightarrow> (s1, None)
                       | Some dev \<Rightarrow>
                           if dev = [] then (s1, None)
                           else if dist > SWIPE_THRESHOLD then
                             (let endDc = canvasToDevice s px py
                              in (s1, Some (Swipe dev (ts_x start) (ts_y start)
                                              (fst endDc) (snd endDc) 300)))
                           else (s1, Some (Tap dev (ts_x start) (ts_y start)))))"

text \<open>\<open>handleClick\<close> (select mode): the call of \<open>onTap\<close>, if it is made.\<close>

definition handleClick :: "ScreenCanvas \<Rightarrow> (real \<times> real) option \<Rightarrow> Request option" where
  "handleClick s pointerPos =
     (if tapMode s then None
      else case pointerPos of
             None \<Rightarrow> None
           | Some (px, py) \<Rightarrow>
               if onTap s \<and> deviceInfo s \<noteq> None then
                 (if f_width (frameSize s) > 0 \<and> js_gt (fst (canvasSize s)) (Num 0)
                  then Some (OnTap
                         (Math_round (js_div (js_mul (Num px) (Num (f_width (frameSize s))))
                                         (fst (canvasSize s))))
                         (Math_round (js_div (js_mul (Num py) (Num (f_height (frameSize s))))
                                         (snd (canvasSize s)))))
                  else (let deviceCoord = canvasToDevice s px py
                        in Some (OnTap (fst deviceCoord) (snd deviceCoord))))
               else None)"

text \<open>The coordinates that a request carries.\<close>

fun requestCoordinates :: "Request \<Rightarrow> jsnum list" where
  "requestCoordinates (Tap dev x y) = [x, y]"
| "requestCoordinates (Swipe dev x1 y1 x2 y2 duration) = [x1, y1, x2, y2]"
| "requestCoordinates (OnTap x y) = [x, y]"

text \<open>
  \<open>calculateScale\<close> as a step of the component: \<open>setScale\<close> and \<open>setCanvasSize\<close> are
  called together, and nothing else sets either of the two.
\<close>

definition applyScale :: "Viewport \<Rightarrow> real \<Rightarrow> real \<Rightarrow> ScreenCanvas \<Rightarrow> ScreenCanvas" where
  "applyScale vp deviceWidth deviceHeight s =
     s\<lparr>canvasSize := snd (calculateScale vp deviceWidth deviceHeight),
       scale := fst (calculateScale vp deviceWidth deviceHeight)\<rparr>"

text \<open>
  Specification vocabulary for the gestures: the Euclidean distance of two points of
  the render surface, a divisor that keeps a finite quotient finite, and the requirement
  that a captured start point has integer device coordinates. The canvas size is the
  size \<open>w\<close> by \<open>h\<close> times the scale in the initial state (360 by 640, scale 1) and after
  every \<open>calculateScale\<close> (the device size). The pointer handlers are bound to the
  \<open>Stage\<close>, whose width and height are the canvas size, so a pointer event is received
  only on a stage of positive width and height.
\<close>

definition sizedByScale :: "ScreenCanvas \<Rightarrow> real \<Rightarrow> real \<Rightarrow> bool" where
  "sizedByScale s w h = (canvasSize s = (js_mul (Num w) (scale s), js_mul (Num h) (scale s)))"

definition stageHasArea :: "ScreenCanvas \<Rightarrow> bool" where
  "stageHasArea s = (js_gt (fst (canvasSize s)) (Num 0) \<and> js_gt (snd (canvasSize s)) (Num 0))"

definition renderDistance :: "real \<times> real \<Rightarrow> real \<times> real \<Rightarrow> real" where
  "renderDistance p q = sqrt ((fst q - fst p)\<^sup>2 + (snd q - snd p)\<^sup>2)"

fun usableDivisor :: "jsnum \<Rightarrow> bool" where
  "usableDivisor (Num a) = (a \<noteq> 0)"
| "usableDivisor NaN = False"
| "usableDivisor _ = True"

definition startIntegral :: "ScreenCanvas \<Rightarrow> bool" where
  "startIntegral s =
     (case tapStartRef s of
        None \<Rightarrow> True
      | Some start \<Rightarrow> isInteger (ts_x start) \<and> isInteger (ts_y start))"

text \<open>
  Example states: an Android device of 1080 x 2400 shown at one third, in tap mode, with
  a gesture that started at render point (100, 200).
\<close>

definition pixelDevice :: DeviceInfo where
  "pixelDevice =
     \<lparr>serial = ''emulator-5554'', d_width = 1080, d_height = 2400, platform = ''android''\<rparr>"

definition tapping :: ScreenCanvas where
  "tapping =
     (mounted (Some ''emulator-5554''))
       \<lparr>deviceInfo := Some pixelDevice, canvasSize := (Num 360, Num 800), scale := Num (1 / 3),
        tapMode := True\<rparr>"

definition pressed :: ScreenCanvas where
  "pressed =
     tapping\<lparr>tapStartRef :=
               Some \<lparr>ts_x = Num 300, ts_y = Num 600, ts_canvasX = 100, ts_canvasY = 200\<rparr>\<rparr>"

section \<open>Element overlays\<close>

text \<open>
  An entry of the array that \<open>extractElementBounds\<close> returns. Strings are lists of
  characters, and \<open>length\<close>, \<open>substring\<close> and \<open>split\<close> count and cut by character.
\<close>

record OverlayElement =
  o_bounds :: BoundsComputed
  o_label :: string
  o_color :: string

text \<open>
  \<open>s.split(sep)\<close> for a separator of one character: the pieces between the separators,
  at least one piece. \<open>pop\<close> takes the last one.
\<close>

fun split_from :: "char \<Rightarrow> string \<Rightarrow> string \<Rightarrow> string list" where
  "split_from sep piece [] = [rev piece]"
| "split_from sep piece (c # cs) =
     (if c = sep then rev piece # split_from sep [] cs else split_from sep (c # piece) cs)"

definition split :: "char \<Rightarrow> string \<Rightarrow> string list" where
  "split sep s = split_from sep [] s"

definition pop :: "string list \<Rightarrow> string" where
  "pop pieces = (case rev pieces of [] \<Rightarrow> [] | piece # _ \<Rightarrow> piece)"

text \<open>The block \<open>Determine color based on element type\<close>.\<close>

definition overlayColor :: "NodeAttributes \<Rightarrow> string" where
  "overlayColor attrs =
     (if clickable attrs = Some ''true'' then ''#52c41a''
      else if scrollable attrs = Some ''true'' then ''#faad14''
      else if long_clickable attrs = Some ''true'' then ''#13c2c2''
      else ''#1890ff'')"

text \<open>
  The blocks \<open>Create label\<close> and \<open>Truncate long labels\<close>, and the expression
  \<open>label || n.tag.split('.').pop() || ''\<close> of the pushed entry.
\<close>

definition overlayLabel :: "NodeAttributes \<Rightarrow> string \<Rightarrow> string" where
  "overlayLabel attrs tg =
     (let label = (if truthy (text_attr attrs) then the (text_attr attrs)
                   else if truthy (resource_id attrs)
                        then pop (split CHR ''/'' (the (resource_id attrs)))
                   else if truthy (content_desc attrs) then the (content_desc attrs)
                   else []);
          label = (if label \<noteq> [] \<and> length label > 20 then take 17 label @ ''...'' else label)
      in if label \<noteq> [] then label else pop (split CHR ''.'' tg))"

text \<open>
  \<open>traverse\<close> pushes onto the array \<open>results\<close> of the enclosing function; here it takes
  the array and returns it. The parameter \<open>depth\<close> is never read and is left out.
\<close>

fun traverse :: "HierarchyNode \<Rightarrow> OverlayElement list \<Rightarrow> OverlayElement list" where
  "traverse (HierarchyNode tg attrs cs) results =
     (if visible attrs = Some ''false'' then fold traverse cs results
      else fold traverse cs
             (case bounds_computed attrs of
                None \<Rightarrow> results
              | Some boundsComputed \<Rightarrow>
                  if (clickable attrs = Some ''true'' \<or> scrollable attrs = Some ''true'' \<or>
                      focusable attrs = Some ''true'' \<or> long_clickable attrs = Some ''true'' \<or>
                      truthy (text_attr attrs)) \<and>
                     b_w boundsComputed > 10 \<and> b_h boundsComputed > 10 \<and>
                     b_w boundsComputed < 2000 \<and> b_h boundsComputed < 3000
                  then results @ [\<lparr>o_bounds = boundsComputed,
                                    o_label = overlayLabel attrs tg,
                                    o_color = overlayColor attrs\<rparr>]
                  else results))"

definition extractElementBounds :: "HierarchyNode \<Rightarrow> OverlayElement list" where
  "extractElementBounds node = traverse node []"

text \<open>
  Specification vocabulary for the overlays. \<open>included\<close> is the inclusion condition in
  the words of the specification: not marked not-visible, bounds of a width strictly
  between 10 and 2000 and a height strictly between 10 and 3000, and clickable,
  scrollable, focusable, long-clickable or with a non-empty text.
\<close>

definition interactive :: "NodeAttributes \<Rightarrow> bool" where
  "interactive attrs =
     (clickable attrs = Some ''true'' \<or> scrollable attrs = Some ''true'' \<or>
      focusable attrs = Some ''true'' \<or> long_clickable attrs = Some ''true'')"

definition hasText :: "NodeAttributes \<Rightarrow> bool" where
  "hasText attrs = (case text_attr attrs of None \<Rightarrow> False | Some t \<Rightarrow> length t > 0)"

definition included :: "HierarchyNode \<Rightarrow> bool" where
  "included n =
     (visible (attributes n) \<noteq> Some ''false'' \<and>
      (case bounds_computed (attributes n) of
         None \<Rightarrow> False
       | Some b \<Rightarrow> 10 < b_w b \<and> b_w b < 2000 \<and> 10 < b_h b \<and> b_h b < 3000) \<and>
      (interactive (attributes n) \<or> hasText (attributes n)))"

definition overlayOf :: "HierarchyNode \<Rightarrow> OverlayElement" where
  "overlayOf n =
     \<lparr>o_bounds = the (bounds_computed (attributes n)),
      o_label = overlayLabel (attributes n) (tag n),
      o_color = overlayColor (attributes n)\<rparr>"

text \<open>
  The label in the words of the specification: the first non-empty candidate among the
  text (cut to 17 characters and an ellipsis when longer than 20), the last path segment
  of the resource-id, the content-description, the last dotted segment of the tag.
\<close>

definition lastSegment :: "char \<Rightarrow> string \<Rightarrow> string" where
  "lastSegment sep s = rev (takeWhile (\<lambda>c. c \<noteq> sep) (rev s))"

definition orEmpty :: "string option \<Rightarrow> string" where
  "orEmpty v = (case v of None \<Rightarrow> [] | Some t \<Rightarrow> t)"

definition truncated :: "string \<Rightarrow> string" where
  "truncated t = (if length t > 20 then take 17 t @ ''...'' else t)"

definition firstNonEmpty :: "string list \<Rightarrow> string" where
  "firstNonEmpty candidates = (case filter (\<lambda>c. c \<noteq> []) candidates of [] \<Rightarrow> [] | c # _ \<Rightarrow> c)"

definition specLabel :: "HierarchyNode \<Rightarrow> string" where
  "specLabel n =
     firstNonEmpty
       [truncated (orEmpty (text_attr (attributes n))),
        lastSegment CHR ''/'' (orEmpty (resource_id (attributes n))),
        orEmpty (content_desc (attributes n)),
        lastSegment CHR ''.'' (tag n)]"

text \<open>
  The label as the code derives it: the source is the first attribute that is present
  and not empty among text, resource-id and content-description, the resource-id
  giving its last path segment; whatever the source, the label is cut to 17 characters
  and an ellipsis when longer than 20; an empty result gives way to the last dotted
  segment of the tag.
\<close>

definition derivedLabel :: "HierarchyNode \<Rightarrow> string" where
  "derivedLabel n =
     (let a = attributes n;
          source = (if orEmpty (text_attr a) \<noteq> [] then orEmpty (text_attr a)
                    else if orEmpty (resource_id a) \<noteq> []
                         then lastSegment CHR ''/'' (orEmpty (resource_id a))
                    else orEmpty (content_desc a))
      in firstNonEmpty [truncated source, lastSegment CHR ''.'' (tag n)])"

text \<open>
  Example trees: an invisible container with one clickable child; a toolbar button
  whose only label source is a long content-description.
\<close>

definition loginButton :: HierarchyNode where
  "loginButton =
     HierarchyNode ''android.widget.Button''
       (noAttributes\<lparr>text_attr := Some ''Log in'', clickable := Some ''true'',
                      bounds_computed := Some (box 100 200 200 80)\<rparr>) []"

definition hiddenContainer :: HierarchyNode where
  "hiddenContainer =
     HierarchyNode ''android.widget.FrameLayout''
       (noAttributes\<lparr>clickable := Some ''true'', visible := Some ''false'',
                      bounds_computed := Some (box 0 0 1080 1200)\<rparr>)
       [loginButton]"

definition navigateUp :: HierarchyNode where
  "navigateUp =
     HierarchyNode ''android.widget.ImageButton''
       (noAttributes\<lparr>content_desc := Some ''Navigate up to the previous screen'',
                      clickable := Some ''true'',
                      bounds_computed := Some (box 0 66 147 147)\<rparr>) []"

section \<open>Screen stream\<close>

text \<open>
  \<open>ws.close(...)\<close>: a socket that is connecting or open starts the closing handshake;
  on a socket that is closing or closed the call changes nothing. The browser reports
  the end of the handshake later, with the close event.
\<close>

definition wsClose :: "nat \<Rightarrow> ScreenCanvas \<Rightarrow> ScreenCanvas" where
  "wsClose ws s =
     (if ws < length (sockets s) \<and> readyState (sockets s ! ws) \<in> {CONNECTING, OPEN}
      then s\<lparr>sockets := (sockets s)[ws := (sockets s ! ws)\<lparr>readyState := CLOSING\<rparr>]\<rparr>
      else s)"

definition cleanupImageUrl :: "ScreenCanvas \<Rightarrow> ScreenCanvas" where
  "cleanupImageUrl s =
     (if truthy (imageUrlRef s) then s\<lparr>imageUrlRef := None, imageUrl := None\<rparr> else s)"

definition newSocket :: "string \<Rightarrow> WebSocket" where
  "newSocket dev = \<lparr>ws_serial = dev, readyState = CONNECTING, closeListeners = []\<rparr>"

text \<open>\<open>openNewWs\<close> of the effect run for \<open>dev\<close>; the handlers are modelled below.\<close>

definition openNewWs :: "string \<Rightarrow> ScreenCanvas \<Rightarrow> ScreenCanvas" where
  "openNewWs dev s =
     (if currentSerialRef s \<noteq> Some dev then s
      else s\<lparr>loading := True,
             sockets := sockets s @ [newSocket dev],
             wsRef := Some (length (sockets s))\<rparr>)"

definition addCloseListener :: "nat \<Rightarrow> string \<Rightarrow> ScreenCanvas \<Rightarrow> ScreenCanvas" where
  "addCloseListener ws dev s =
     s\<lparr>sockets := (sockets s)[ws := (sockets s ! ws)
                      \<lparr>closeListeners := closeListeners (sockets s ! ws) @ [dev]\<rparr>]\<rparr>"

text \<open>
  The body of the effect \<open>WebSocket screen streaming\<close>, run by React with the current
  value of the prop \<open>deviceSerial\<close>.
\<close>

definition streamEffect :: "ScreenCanvas \<Rightarrow> ScreenCanvas" where
  "streamEffect s =
     (if \<not> truthy (deviceSerial s) then
        cleanupImageUrl
          ((case wsRef s of
              None \<Rightarrow> s
            | Some ws \<Rightarrow> (wsClose ws s)\<lparr>wsRef := None\<rparr>)\<lparr>isConnected := False\<rparr>)
      else
        (let dev = the (deviceSerial s);
             prevWs = wsRef s;
             s1 = s\<lparr>currentSerialRef := Some dev, wsRef := None, isConnected := False\<rparr>
         in case prevWs of
              None \<Rightarrow> openNewWs dev s1
            | Some prev \<Rightarrow>
                if readyState (sockets s ! prev) \<noteq> CLOSED
                then wsClose prev (addCloseListener prev dev (cleanupImageUrl s1))
                else openNewWs dev s1))"

text \<open>The cleanup function that the effect returns when it ran with a device.\<close>

definition streamCleanup :: "ScreenCanvas \<Rightarrow> ScreenCanvas" where
  "streamCleanup s =
     (let s1 = s\<lparr>currentSerialRef := None\<rparr>
      in cleanupImageUrl
           (case wsRef s1 of
              None \<Rightarrow> s1
            | Some ws \<Rightarrow> (wsClose ws s1)\<lparr>wsRef := None\<rparr>))"

text \<open>\<open>forceDisconnect\<close> of the imperative handle.\<close>

definition forceDisconnect :: "ScreenCanvas \<Rightarrow> ScreenCanvas" where
  "forceDisconnect s =
     cleanupImageUrl
       ((case wsRef s of
           None \<Rightarrow> s
         | Some ws \<Rightarrow> wsClose ws (s\<lparr>currentSerialRef := None, wsRef := None\<rparr>))
        \<lparr>isConnected := False\<rparr>)"

text \<open>
  The four handlers that \<open>openNewWs\<close> installs on a socket. Each closes over the
  \<open>deviceSerial\<close> of its effect run, kept in \<open>ws_serial\<close>. The message handler gets the
  time of arrival and the object URL made for the frame.
\<close>

definition ws_onopen :: "nat \<Rightarrow> ScreenCanvas \<Rightarrow> ScreenCanvas" where
  "ws_onopen ws s =
     (if currentSerialRef s \<noteq> Some (ws_serial (sockets s ! ws)) then wsClose ws s
      else s\<lparr>loading := False, isConnected := True\<rparr>)"

definition ws_onmessage :: "nat \<Rightarrow> real \<Rightarrow> string \<Rightarrow> ScreenCanvas \<Rightarrow> ScreenCanvas" where
  "ws_onmessage ws now url s =
     (if currentSerialRef s \<noteq> Some (ws_serial (sockets s ! ws)) then s
      else s\<lparr>frameRecvTsRef := now, imageUrlRef := Some url, imageUrl := Some url\<rparr>)"

definition ws_onerror :: "nat \<Rightarrow> ScreenCanvas \<Rightarrow> ScreenCanvas" where
  "ws_onerror ws s = s\<lparr>isConnected := False\<rparr>"

definition ws_onclose :: "nat \<Rightarrow> bool \<Rightarrow> ScreenCanvas \<Rightarrow> ScreenCanvas" where
  "ws_onclose ws wasClean s =
     (let s1 = (if wsRef s = Some ws then s\<lparr>wsRef := None\<rparr> else s)\<lparr>isConnected := False\<rparr>
      in if currentSerialRef s1 = Some (ws_serial (sockets s1 ! ws)) \<and> \<not> wasClean
         then s1\<lparr>timers := timers s1 @ [ws_serial (sockets s1 ! ws)]\<rparr>
         else s1)"

text \<open>The callback of the reconnect timeout, and the listener \<open>onPrevClose\<close>.\<close>

definition reconnectTimeout :: "string \<Rightarrow> ScreenCanvas \<Rightarrow> ScreenCanvas" where
  "reconnectTimeout dev s = (if currentSerialRef s = Some dev then openNewWs dev s else s)"

definition onPrevClose :: "string \<Rightarrow> ScreenCanvas \<Rightarrow> ScreenCanvas" where
  "onPrevClose dev s = openNewWs dev s"

text \<open>
  What the browser does when it delivers an event to a socket: a connecting socket
  becomes open and its open handler runs; an open socket passes a message to its
  message handler; a socket that is not yet closed becomes closed, its close handler
  runs, and then its close listeners in the order they were added, each removing itself.
\<close>

definition setReadyState :: "nat \<Rightarrow> ReadyState \<Rightarrow> ScreenCanvas \<Rightarrow> ScreenCanvas" where
  "setReadyState ws r s = s\<lparr>sockets := (sockets s)[ws := (sockets s ! ws)\<lparr>readyState := r\<rparr>]\<rparr>"

definition deliverOpen :: "nat \<Rightarrow> ScreenCanvas \<Rightarrow> ScreenCanvas" where
  "deliverOpen ws s =
     (if ws < length (sockets s) \<and> readyState (sockets s ! ws) = CONNECTING
      then ws_onopen ws (setReadyState ws OPEN s) else s)"

definition deliverMessage :: "nat \<Rightarrow> real \<Rightarrow> string \<Rightarrow> ScreenCanvas \<Rightarrow> ScreenCanvas" where
  "deliverMessage ws now url s =
     (if ws < length (sockets s) \<and> readyState (sockets s ! ws) = OPEN
      then ws_onmessage ws now url s else s)"

definition deliverClose :: "nat \<Rightarrow> bool \<Rightarrow> ScreenCanvas \<Rightarrow> ScreenCanvas" where
  "deliverClose ws wasClean s =
     (if ws < length (sockets s) \<and> readyState (sockets s ! ws) \<noteq> CLOSED
      then (let listeners = closeListeners (sockets s ! ws);
                s1 = s\<lparr>sockets := (sockets s)[ws := (sockets s ! ws)
                                     \<lparr>readyState := CLOSED, closeListeners := []\<rparr>]\<rparr>
            in fold onPrevClose listeners (ws_onclose ws wasClean s1))
      else s)"

definition fireTimer :: "ScreenCanvas \<Rightarrow> ScreenCanvas" where
  "fireTimer s =
     (case timers s of
        [] \<Rightarrow> s
      | dev # rest \<Rightarrow> reconnectTimeout dev (s\<lparr>timers := rest\<rparr>))"

text \<open>
  The device switch of the application: \<open>handleDeviceChange\<close> calls \<open>forceDisconnect\<close>
  on the canvas when another device was selected, and then sets the selected device,
  which is the prop \<open>deviceSerial\<close> of the canvas. React then commits the new prop: when
  it differs from the one of the last run, the cleanup returned by the last run (there
  is one if that run had a device) and then the effect are run.
\<close>

definition handleDeviceChange :: "string \<Rightarrow> ScreenCanvas \<Rightarrow> ScreenCanvas" where
  "handleDeviceChange newSerial s =
     (if truthy (deviceSerial s) \<and> deviceSerial s \<noteq> Some newSerial
      then forceDisconnect s else s)\<lparr>deviceSerial := Some newSerial\<rparr>"

definition commitEffect :: "string option \<Rightarrow> ScreenCanvas \<Rightarrow> ScreenCanvas" where
  "commitEffect lastSerial s =
     (if deviceSerial s = lastSerial then s
      else streamEffect (if truthy lastSerial then streamCleanup s else s))"

definition switchDevice :: "string \<Rightarrow> ScreenCanvas \<Rightarrow> ScreenCanvas" where
  "switchDevice newSerial s = commitEffect (deviceSerial s) (handleDeviceChange newSerial s)"

text \<open>
  Example run: the canvas is mounted for an Android device, its socket opens and a first
  frame arrives.
\<close>

definition streaming :: ScreenCanvas where
  "streaming =
     deliverMessage 0 1000 ''blob:frame-1''
       (deliverOpen 0 (commitEffect None (mounted (Some ''emulator-5554''))))"

section \<open>Properties of the hierarchy fit\<close>

lemma clampFit_range: "0.1 \<le> clampFit v \<and> clampFit v \<le> 2"
  by (simp add: clampFit_def)

lemma concat_map_concat:
  "concat (map f (concat (map g cs))) = concat (map (\<lambda>c. concat (map f (g c))) cs)"
  by (induction cs) simp_all

lemma positiveBoxes_node:
  "positiveBoxes (HierarchyNode t a cs) =
     positiveBox (HierarchyNode t a cs) @ concat (map positiveBoxes cs)"
proof -
  have "(\<lambda>c. concat (map positiveBox (nodes c))) = positiveBoxes"
    by (rule ext) (simp add: positiveBoxes_def)
  then show ?thesis
    by (simp add: positiveBoxes_def concat_map_concat)
qed

lemma fold_walk_children:
  assumes "\<And>c acc. c \<in> set cs \<Longrightarrow>
             walk c acc = (fold max (map (\<lambda>b. b_x b + b_w b) (positiveBoxes c)) (fst acc),
                           fold max (map (\<lambda>b. b_y b + b_h b) (positiveBoxes c)) (snd acc))"
  shows "fold walk cs acc =
           (fold max (map (\<lambda>b. b_x b + b_w b) (concat (map positiveBoxes cs))) (fst acc),
            fold max (map (\<lambda>b. b_y b + b_h b) (concat (map positiveBoxes cs))) (snd acc))"
  using assms by (induction cs arbitrary: acc) simp_all

lemma walk_fold_max:
  "walk n acc = (fold max (map (\<lambda>b. b_x b + b_w b) (positiveBoxes n)) (fst acc),
                 fold max (map (\<lambda>b. b_y b + b_h b) (positiveBoxes n)) (snd acc))"
proof (induction n arbitrary: acc)
  case (HierarchyNode t a cs)
  obtain mr mb where acc: "acc = (mr, mb)" by (cases acc)
  show ?case
    unfolding acc walk.simps
    by (subst fold_walk_children)
       (auto simp: HierarchyNode.IH positiveBoxes_node positiveBox_def max.commute
             split: option.split)
qed

lemma fold_max_Max: "fold max xs (a::real) = Max (insert a (set xs))"
  using Max.set_eq_fold [of a xs] by simp

lemma estimateHierarchyBounds_Max:
  "estimateHierarchyBounds tree = (Max (insert 0 (rights tree)), Max (insert 0 (bottoms tree)))"
  by (simp add: estimateHierarchyBounds_def walk_fold_max fold_max_Max rights_def bottoms_def)

lemma Max_insert_pos:
  assumes "finite S" "Max (insert (0::real) S) > 0"
  shows "S \<noteq> {} \<and> Max (insert 0 S) = Max S"
proof -
  have ne: "S \<noteq> {}" using assms(2) by auto
  have "Max (insert 0 S) = max 0 (Max S)" using assms(1) ne by simp
  moreover from this assms(2) have "Max S > 0" by (simp add: max_def split: if_splits)
  ultimately show ?thesis using ne by simp
qed

text \<open>
  C1. For a hierarchy whose estimated extent is positive in both axes: the extent is the
  maximum of \<open>x + w\<close>, respectively \<open>y + h\<close>, over the boxes of strictly positive width
  and height; before the clamp, the fit is the ratio of the device size to the frame size
  when the extent exceeds 1.2 times the device size in some axis and a frame of positive
  size has been decoded, the ratio of the device size to the extent when it exceeds and no
  such frame is there, and \<open>(1, 1)\<close> otherwise; the published fit is the clamp of that.
\<close>

theorem hierarchy_fit_formula:
  assumes "estimateHierarchyBounds tree = (maxRight, maxBottom)"
    and "0 < maxRight" and "0 < maxBottom"
  shows "maxRight = Max (rights tree) \<and> maxBottom = Max (bottoms tree) \<and>
         unclampedFit tree dInfo frame =
           (if maxRight > d_width dInfo * 1.2 \<or> maxBottom > d_height dInfo * 1.2
            then (if f_width frame > 0 \<and> f_height frame > 0
                  then (d_width dInfo / f_width frame, d_height dInfo / f_height frame)
                  else (d_width dInfo / maxRight, d_height dInfo / maxBottom))
            else (1, 1)) \<and>
         recalcHierarchyFit (Some tree) (Some dInfo) frame =
           (clampFit (fst (unclampedFit tree dInfo frame)),
            clampFit (snd (unclampedFit tree dInfo frame)))"
proof -
  have fr: "finite (rights tree)" and fb: "finite (bottoms tree)"
    by (simp_all add: rights_def bottoms_def)
  have mr: "maxRight = Max (insert 0 (rights tree))"
    and mb: "maxBottom = Max (insert 0 (bottoms tree))"
    using assms(1) by (simp_all add: estimateHierarchyBounds_Max)
  have "maxRight = Max (rights tree)"
    using Max_insert_pos [OF fr] assms(2) mr by simp
  moreover have "maxBottom = Max (bottoms tree)"
    using Max_insert_pos [OF fb] assms(3) mb by simp
  moreover have "unclampedFit tree dInfo frame =
           (if maxRight > d_width dInfo * 1.2 \<or> maxBottom > d_height dInfo * 1.2
            then (if f_width frame > 0 \<and> f_height frame > 0
                  then (d_width dInfo / f_width frame, d_height dInfo / f_height frame)
                  else (d_width dInfo / maxRight, d_height dInfo / maxBottom))
            else (1, 1))"
    using assms(1) by (simp add: unclampedFit_def)
  moreover have "recalcHierarchyFit (Some tree) (Some dInfo) frame =
           (clampFit (fst (unclampedFit tree dInfo frame)),
            clampFit (snd (unclampedFit tree dInfo frame)))"
    using assms by (simp add: recalcHierarchyFit_def split_beta)
  ultimately show ?thesis by blast
qed

lemma estimateHierarchyBounds_iosTree: "estimateHierarchyBounds iosTree = (1170, 2532)"
  by (simp add: estimateHierarchyBounds_def iosTree_def noAttributes_def box_def)

theorem hierarchy_fit_formula_witness:
  "estimateHierarchyBounds iosTree = (1170, 2532) \<and> (0::real) < 1170 \<and> (0::real) < 2532 \<and>
   Max (rights iosTree) = 1170 \<and> Max (bottoms iosTree) = 2532 \<and>
   unclampedFit iosTree iosDevice noFrame = (375 / 1170, 812 / 2532) \<and>
   recalcHierarchyFit (Some iosTree) (Some iosDevice) noFrame =
     (clampFit (375 / 1170), clampFit (812 / 2532))"
proof -
  have p: "(0::real) < 1170" "(0::real) < 2532" by simp_all
  note t = hierarchy_fit_formula [OF estimateHierarchyBounds_iosTree p, of iosDevice noFrame]
  have u: "unclampedFit iosTree iosDevice noFrame = (375 / 1170, 812 / 2532)"
    using t by (simp add: iosDevice_def noFrame_def)
  show ?thesis
    using t u estimateHierarchyBounds_iosTree by simp
qed

text \<open>
  C4. Whatever the hierarchy (absent, empty extent, huge extent), the device descriptor
  and the frame size, both fit factors handed to \<open>setHierarchyFit\<close> lie in \<open>[0.1, 2]\<close>.
\<close>

theorem recalcHierarchyFit_clamped:
  "0.1 \<le> fst (recalcHierarchyFit tree dInfo frame) \<and>
   fst (recalcHierarchyFit tree dInfo frame) \<le> 2 \<and>
   0.1 \<le> snd (recalcHierarchyFit tree dInfo frame) \<and>
   snd (recalcHierarchyFit tree dInfo frame) \<le> 2"
proof (cases tree)
  case None
  then show ?thesis by (simp add: recalcHierarchyFit_def)
next
  case (Some t)
  show ?thesis
  proof (cases dInfo)
    case None
    with Some show ?thesis by (simp add: recalcHierarchyFit_def)
  next
    case (Some d)
    obtain mr mb where e: "estimateHierarchyBounds t = (mr, mb)"
      by (cases "estimateHierarchyBounds t")
    obtain fx fy where u: "unclampedFit t d frame = (fx, fy)"
      by (cases "unclampedFit t d frame")
    have r: "recalcHierarchyFit tree dInfo frame =
               (if mr \<le> 0 \<or> mb \<le> 0 then (1, 1) else (clampFit fx, clampFit fy))"
      using \<open>tree = Some t\<close> Some e u by (simp add: recalcHierarchyFit_def)
    show ?thesis
      using clampFit_range [of fx] clampFit_range [of fy] by (simp add: r)
  qed
qed

section \<open>Properties of the render scale\<close>

lemma js_div_pos: "0 < b \<Longrightarrow> js_div (Num a) (Num b) = Num (a / b)"
  by simp

lemma Math_min3_Num: "Math_min3 (Num a) (Num b) (Num c) = Num (min a (min b c))"
  by (simp add: Math_min3_def min_def)

lemma renderScale_positive:
  assumes "0 < rw" and "0 < rh" and "0 < dw" and "0 < dh"
  shows "0 < renderScale rw rh dw dh"
  using assms by (simp add: renderScale_def)

text \<open>
  C5. For a render surface of positive width and height and every device size, that is,
  positive device width and height, the scale handed to \<open>setScale\<close> is
  \<open>min (rw/dw) (min (rh/dh) 1.2)\<close>, a finite number, and it is strictly greater than 0.
\<close>

theorem calculateScale_positive:
  assumes "0 < availableWidth vp" and "0 < availableHeight vp" and "0 < dw" and "0 < dh"
  shows "fst (calculateScale vp dw dh) =
           Num (renderScale (availableWidth vp) (availableHeight vp) dw dh) \<and>
         0 < renderScale (availableWidth vp) (availableHeight vp) dw dh \<and>
         js_gt (fst (calculateScale vp dw dh)) (Num 0)"
proof -
  have e: "fst (calculateScale vp dw dh) =
             Num (renderScale (availableWidth vp) (availableHeight vp) dw dh)"
    unfolding calculateScale_def Let_def fst_conv js_div_pos [OF assms(3)]
      js_div_pos [OF assms(4)] Math_min3_Num renderScale_def ..
  have p: "0 < renderScale (availableWidth vp) (availableHeight vp) dw dh"
    by (rule renderScale_positive [OF assms])
  from e p show ?thesis by (simp add: js_gt_def)
qed

theorem calculateScale_positive_witness:
  "0 < availableWidth desktop \<and> 0 < availableHeight desktop \<and>
   (0::real) < 1080 \<and> (0::real) < 2400 \<and>
   fst (calculateScale desktop 1080 2400) = Num (1 / 3) \<and>
   js_gt (fst (calculateScale desktop 1080 2400)) (Num 0)"
proof -
  have h: "0 < availableWidth desktop" "0 < availableHeight desktop"
    by (simp_all add: availableWidth_def availableHeight_def desktop_def overhead_def)
  have p: "(0::real) < 1080" "(0::real) < 2400" by simp_all
  have v: "renderScale (availableWidth desktop) (availableHeight desktop) 1080 2400 = 1 / 3"
    by (simp add: renderScale_def availableWidth_def availableHeight_def desktop_def overhead_def)
  note t = calculateScale_positive [OF h p]
  have t1: "fst (calculateScale desktop 1080 2400) = Num (1 / 3)"
    using t unfolding v by (rule conjunct1)
  have t2: "js_gt (fst (calculateScale desktop 1080 2400)) (Num 0)"
    using t by blast
  show ?thesis
    using h t1 t2 by simp
qed

section \<open>Properties of the pointer gestures\<close>

lemma sqrt_400: "sqrt 400 = 20"
  by (rule real_sqrt_unique) simp_all

lemma renderDistance_eq:
  "renderDistance (cx, cy) (px, py) = sqrt ((px - cx) * (px - cx) + (py - cy) * (py - cy))"
  by (simp add: renderDistance_def power2_eq_square)

text \<open>
  C6. A pointer-up on the mounted stage, in tap mode, with a pending gesture: when the
  release point is at most 20 render pixels from the captured start point, a tap at the
  captured device point is sent; when it is farther, a swipe from the captured device
  point to the device point of the release with duration 300; either way the pending
  gesture and the swipe preview are cleared. The stage is mounted only while a device is
  selected, and that device is the addressee.
\<close>

theorem pointer_up_resolves_gesture:
  assumes "tapMode s" and "tapStartRef s = Some start" and "stageMounted s"
  shows "\<exists>dev. deviceSerial s = Some dev \<and> dev \<noteq> [] \<and>
           handleMouseUp s (Some (px, py)) =
             (s\<lparr>tapStartRef := None, swipeArrow := None\<rparr>,
              Some (if renderDistance (ts_canvasX start, ts_canvasY start) (px, py) \<le> 20
                    then Tap dev (ts_x start) (ts_y start)
                    else Swipe dev (ts_x start) (ts_y start)
                           (fst (canvasToDevice s px py)) (snd (canvasToDevice s px py)) 300))"
proof -
  from assms(3) obtain dev where dev: "deviceSerial s = Some dev" "dev \<noteq> []"
    by (cases "deviceSerial s") (auto simp: stageMounted_def)
  have "handleMouseUp s (Some (px, py)) =
             (s\<lparr>tapStartRef := None, swipeArrow := None\<rparr>,
              Some (if renderDistance (ts_canvasX start, ts_canvasY start) (px, py) \<le> 20
                    then Tap dev (ts_x start) (ts_y start)
                    else Swipe dev (ts_x start) (ts_y start)
                           (fst (canvasToDevice s px py)) (snd (canvasToDevice s px py)) 300))"
    using assms(1,2) dev
    by (simp add: handleMouseUp_def Let_def renderDistance_eq SWIPE_THRESHOLD_def not_le)
  with dev show ?thesis by blast
qed

lemma pressed_facts:
  "tapMode pressed" 
  "tapStartRef pressed = Some \<lparr>ts_x = Num 300, ts_y = Num 600, ts_canvasX = 100, ts_canvasY = 200\<rparr>"
  "stageMounted pressed" "deviceSerial pressed = Some ''emulator-5554''"
  by (simp_all add: pressed_def tapping_def mounted_def stageMounted_def)

lemma dist_20: "renderDistance (100, 200) (112, 216) = 20"
  by (simp add: renderDistance_def sqrt_400)

lemma dist_21: "renderDistance (100, 200) (100, 221) = 21"
proof -
  have "sqrt 441 = 21" by (rule real_sqrt_unique) simp_all
  then show ?thesis by (simp add: renderDistance_def)
qed

lemma canvasToDevice_pressed: "canvasToDevice pressed 100 221 = (Num 300, Num 663)"
  by (simp add: canvasToDevice_def pressed_def tapping_def mounted_def)

theorem pointer_up_resolves_gesture_witness:
  "tapMode pressed \<and> stageMounted pressed \<and>
   handleMouseUp pressed (Some (112, 216)) =
     (pressed\<lparr>tapStartRef := None, swipeArrow := None\<rparr>,
      Some (Tap ''emulator-5554'' (Num 300) (Num 600))) \<and>
   handleMouseUp pressed (Some (100, 221)) =
     (pressed\<lparr>tapStartRef := None, swipeArrow := None\<rparr>,
      Some (Swipe ''emulator-5554'' (Num 300) (Num 600) (Num 300) (Num 663) 300))"
  using pointer_up_resolves_gesture [OF pressed_facts(1,2,3), of 112 216]
    pointer_up_resolves_gesture [OF pressed_facts(1,2,3), of 100 221]
    pressed_facts
  by (simp add: dist_20 dist_21 canvasToDevice_pressed)

lemma handleMouseUp_after_leave:
  "handleMouseUp (handleMouseLeave s) pos =
     (handleMouseLeave (fst (handleMouseUp s pos)), snd (handleMouseUp s pos))"
  by (simp add: handleMouseUp_def handleMouseLeave_def canvasToDevice_def Let_def
      split: option.split prod.split)

text \<open>
  C9. Pointer-leave clears the swipe preview and the coordinate readout and leaves the
  captured gesture as it is: a pointer-up after it sends what it would have sent
  without the leave, so with a pending gesture on the mounted stage in tap mode the
  request starts at the device point captured on pointer-down, and the gesture is then
  cleared.
\<close>

theorem pointer_leave_keeps_gesture:
  "tapStartRef (handleMouseLeave s) = tapStartRef s \<and>
   swipeArrow (handleMouseLeave s) = None \<and>
   coordinate (handleMouseLeave s) = None \<and>
   snd (handleMouseUp (handleMouseLeave s) pos) = snd (handleMouseUp s pos) \<and>
   (tapMode s \<and> stageMounted s \<and> tapStartRef s = Some start \<longrightarrow>
      (\<exists>req. snd (handleMouseUp (handleMouseLeave s) (Some p)) = Some req \<and>
             take 2 (requestCoordinates req) = [ts_x start, ts_y start]) \<and>
      tapStartRef (fst (handleMouseUp (handleMouseLeave s) (Some p))) = None)"
proof -
  have a: "tapStartRef (handleMouseLeave s) = tapStartRef s"
    "swipeArrow (handleMouseLeave s) = None" "coordinate (handleMouseLeave s) = None"
    by (simp_all add: handleMouseLeave_def)
  have b: "snd (handleMouseUp (handleMouseLeave s) pos) = snd (handleMouseUp s pos)"
    by (simp add: handleMouseUp_after_leave)
  have c: "(\<exists>req. snd (handleMouseUp (handleMouseLeave s) (Some p)) = Some req \<and>
             take 2 (requestCoordinates req) = [ts_x start, ts_y start]) \<and>
      tapStartRef (fst (handleMouseUp (handleMouseLeave s) (Some p))) = None"
    if h: "tapMode s" "stageMounted s" "tapStartRef s = Some start"
  proof -
    obtain px py where p: "p = (px, py)" by (cases p)
    from h(2) obtain dev where dev: "deviceSerial s = Some dev" "dev \<noteq> []"
      by (cases "deviceSerial s") (auto simp: stageMounted_def)
    show ?thesis
      unfolding handleMouseUp_after_leave p
      using h(1,3) dev by (simp add: handleMouseUp_def handleMouseLeave_def Let_def)
  qed
  from a b c show ?thesis by blast
qed

theorem pointer_leave_keeps_gesture_witness:
  "tapMode pressed \<and> stageMounted pressed \<and>
   tapStartRef (handleMouseLeave pressed) = tapStartRef pressed \<and>
   snd (handleMouseUp (handleMouseLeave pressed) (Some (112, 216))) =
     Some (Tap ''emulator-5554'' (Num 300) (Num 600))"
proof -
  have f: "tapMode pressed" "stageMounted pressed"
    "tapStartRef pressed =
       Some \<lparr>ts_x = Num 300, ts_y = Num 600, ts_canvasX = 100, ts_canvasY = 200\<rparr>"
    by (simp_all add: pressed_def tapping_def mounted_def stageMounted_def)
  have u: "snd (handleMouseUp pressed (Some (112, 216))) =
             Some (Tap ''emulator-5554'' (Num 300) (Num 600))"
    by (simp add: handleMouseUp_def pressed_def tapping_def mounted_def Let_def
          SWIPE_THRESHOLD_def sqrt_400)
  show ?thesis
    using pointer_leave_keeps_gesture [of pressed "Some (112, 216)"] f u by simp
qed

lemma round_div_integer:
  assumes "usableDivisor v"
  shows "isInteger (Math_round (js_div (Num a) v))"
  using assms by (cases v) simp_all

lemma canvasToDevice_integer:
  assumes "usableDivisor (scale s)"
  shows "isInteger (fst (canvasToDevice s px py))" "isInteger (snd (canvasToDevice s px py))"
  using assms by (simp_all add: canvasToDevice_def round_div_integer split: option.split)

lemma sizedByScale_mounted: "sizedByScale (mounted dev) 360 640"
  by (simp add: sizedByScale_def mounted_def)

lemma sizedByScale_applyScale: "sizedByScale (applyScale vp dw dh s) dw dh"
  by (simp add: sizedByScale_def applyScale_def calculateScale_def Let_def)

lemma positive_canvas_usable:
  assumes "sizedByScale s w h" and "stageHasArea s"
  shows "usableDivisor (scale s)" and "usableDivisor (snd (canvasSize s))"
proof -
  from assms have a: "js_lt (Num 0) (js_mul (Num w) (scale s))"
    and b: "js_lt (Num 0) (js_mul (Num h) (scale s))"
    and c: "snd (canvasSize s) = js_mul (Num h) (scale s)"
    by (simp_all add: sizedByScale_def stageHasArea_def js_gt_def)
  show "usableDivisor (scale s)"
    using a by (cases "scale s") auto
  show "usableDivisor (snd (canvasSize s))"
    unfolding c using b by (cases "scale s") (auto split: if_splits)
qed

text \<open>
  C10. On a stage that can receive pointer events (positive width and height, sized by
  the scale), for every pointer position and scale: \<open>canvasToDevice\<close> yields integers; a
  start point captured by pointer-down has integer device coordinates and the other
  pointer handlers leave it as it is, so every tap and swipe sent by pointer-up carries
  integers only; and both coordinates of the lookup sent by a click in select mode are
  integers, on the frame-pixel path as on the fallback path.
\<close>

theorem dispatched_coordinates_integer:
  assumes "sizedByScale s w h" and "stageHasArea s"
  shows "isInteger (fst (canvasToDevice s px py)) \<and> isInteger (snd (canvasToDevice s px py)) \<and>
         (startIntegral s \<longrightarrow> startIntegral (handleMouseDown s pos)) \<and>
         (startIntegral s \<longrightarrow> startIntegral (fst (handleMouseUp s pos))) \<and>
         (startIntegral s \<longrightarrow> startIntegral (handleMouseMove s pos)) \<and>
         (startIntegral s \<longrightarrow> startIntegral (handleMouseLeave s)) \<and>
         (startIntegral s \<longrightarrow>
            (\<forall>req. snd (handleMouseUp s pos) = Some req \<longrightarrow>
                   list_all isInteger (requestCoordinates req))) \<and>
         (\<forall>req. handleClick s pos = Some req \<longrightarrow> list_all isInteger (requestCoordinates req))"
proof -
  note us = positive_canvas_usable [OF assms]
  note c = canvasToDevice_integer [OF us(1)]
  have d: "startIntegral (handleMouseDown s pos)" if "startIntegral s"
    using that c by (auto simp: handleMouseDown_def startIntegral_def Let_def split: option.split)
  have u: "startIntegral (fst (handleMouseUp s pos))" if "startIntegral s"
    using that by (auto simp: handleMouseUp_def startIntegral_def Let_def split: option.split)
  have m: "startIntegral (handleMouseMove s pos)" "startIntegral (handleMouseLeave s)"
    if "startIntegral s"
    using that
    by (auto simp: handleMouseMove_def handleMouseLeave_def startIntegral_def Let_def
        split: option.split)
  have r: "list_all isInteger (requestCoordinates req)"
    if "startIntegral s" "snd (handleMouseUp s pos) = Some req" for req
    using that c
    by (auto simp: handleMouseUp_def startIntegral_def Let_def split: option.splits if_splits)
  have k: "list_all isInteger (requestCoordinates req)" if "handleClick s pos = Some req" for req
  proof -
    have x: "isInteger (Math_round (js_div (js_mul (Num a) (Num b)) v))"
      if "js_gt v (Num 0)" for a b v
      using that by (cases v) (simp_all add: js_gt_def)
    have y: "isInteger (Math_round (js_div (js_mul (Num a) (Num b)) (snd (canvasSize s))))" for a b
      using round_div_integer [OF us(2)] by simp
    show ?thesis
      using that c x y
      by (auto simp: handleClick_def Let_def split: option.splits if_splits)
  qed
  from c d u m r k show ?thesis by blast
qed

theorem dispatched_coordinates_integer_witness:
  "sizedByScale pressed 1080 2400 \<and> stageHasArea pressed \<and> startIntegral pressed \<and>
   snd (handleMouseUp pressed (Some (100, 221))) =
     Some (Swipe ''emulator-5554'' (Num 300) (Num 600) (Num 300) (Num 663) 300) \<and>
   list_all isInteger [Num 300, Num 600, Num 300, Num 663] \<and>
   handleClick (pressed\<lparr>tapMode := False\<rparr>) (Some (100, 221)) = Some (OnTap (Num 300) (Num 663))"
proof -
  have h: "sizedByScale pressed 1080 2400" "stageHasArea pressed"
    by (simp_all add: sizedByScale_def stageHasArea_def js_gt_def pressed_def tapping_def
          mounted_def)
  have i: "startIntegral pressed"
    by (simp add: startIntegral_def pressed_def tapping_def mounted_def)
  have d21: "sqrt 441 = 21" by (rule real_sqrt_unique) simp_all
  have u: "snd (handleMouseUp pressed (Some (100, 221))) =
             Some (Swipe ''emulator-5554'' (Num 300) (Num 600) (Num 300) (Num 663) 300)"
    by (simp add: handleMouseUp_def canvasToDevice_def pressed_def tapping_def mounted_def
          Let_def SWIPE_THRESHOLD_def d21)
  have k: "handleClick (pressed\<lparr>tapMode := False\<rparr>) (Some (100, 221)) =
             Some (OnTap (Num 300) (Num 663))"
    by (simp add: handleClick_def canvasToDevice_def pressed_def tapping_def mounted_def
          Let_def js_gt_def)
  show ?thesis
    using dispatched_coordinates_integer [OF h, of 100 221 "Some (100, 221)"] h i u k
    by simp
qed

section \<open>Properties of the element overlays\<close>

lemma included_node:
  "included (HierarchyNode tg attrs cs) =
     (visible attrs \<noteq> Some ''false'' \<and>
      (case bounds_computed attrs of
         None \<Rightarrow> False
       | Some b \<Rightarrow>
           (clickable attrs = Some ''true'' \<or> scrollable attrs = Some ''true'' \<or>
            focusable attrs = Some ''true'' \<or> long_clickable attrs = Some ''true'' \<or>
            truthy (text_attr attrs)) \<and>
           b_w b > 10 \<and> b_h b > 10 \<and> b_w b < 2000 \<and> b_h b < 3000))"
  by (cases "text_attr attrs")
     (auto simp: included_def interactive_def hasText_def split: option.split)

lemma fold_traverse_children:
  assumes "\<And>c rs. c \<in> set cs \<Longrightarrow> traverse c rs = rs @ map overlayOf (filter included (nodes c))"
  shows "fold traverse cs rs = rs @ map overlayOf (filter included (concat (map nodes cs)))"
  using assms by (induction cs arbitrary: rs) simp_all

lemma traverse_preorder:
  "traverse n rs = rs @ map overlayOf (filter included (nodes n))"
proof (induction n arbitrary: rs)
  case (HierarchyNode tg attrs cs)
  have f: "fold traverse cs rs' = rs' @ map overlayOf (filter included (concat (map nodes cs)))"
    for rs'
    by (rule fold_traverse_children) (rule HierarchyNode.IH)
  show ?case
  proof (cases "included (HierarchyNode tg attrs cs)")
    case True
    then have "traverse (HierarchyNode tg attrs cs) rs =
                 fold traverse cs (rs @ [overlayOf (HierarchyNode tg attrs cs)])"
      by (auto simp: included_node overlayOf_def split: option.splits)
    with True show ?thesis by (simp add: f)
  next
    case False
    then have "traverse (HierarchyNode tg attrs cs) rs = fold traverse cs rs"
      by (auto simp: included_node split: option.splits)
    with False show ?thesis by (simp add: f)
  qed
qed

text \<open>
  C7. The extractor returns one overlay for each node that is not marked not-visible, has
  bounds of a width strictly between 10 and 2000 and a height strictly between 10 and
  3000, and is clickable, scrollable, focusable, long-clickable or has a non-empty text;
  it returns nothing else, and the overlays are in pre-order. The children of a node
  marked not-visible are still visited: such a parent with a single included leaf child
  yields the overlay of the child and no other.
\<close>

theorem extractElementBounds_preorder:
  "extractElementBounds tree = map overlayOf (filter included (nodes tree)) \<and>
   (visible attrs = Some ''false'' \<and> included child \<and> children child = [] \<longrightarrow>
      \<not> included (HierarchyNode tg attrs [child]) \<and>
      extractElementBounds (HierarchyNode tg attrs [child]) = [overlayOf child])"
proof -
  have a: "extractElementBounds t = map overlayOf (filter included (nodes t))" for t
    by (simp add: extractElementBounds_def traverse_preorder)
  have b: "\<not> included (HierarchyNode tg attrs [child]) \<and>
           extractElementBounds (HierarchyNode tg attrs [child]) = [overlayOf child]"
    if "visible attrs = Some ''false''" "included child" "children child = []"
  proof -
    from that(3) have "nodes child = [child]" by (cases child) simp
    with that(1,2) show ?thesis by (simp add: a included_def)
  qed
  from a b show ?thesis by blast
qed

theorem extractElementBounds_preorder_witness:
  "visible (attributes hiddenContainer) = Some ''false'' \<and> included loginButton \<and>
   children loginButton = [] \<and>
   extractElementBounds hiddenContainer =
     [\<lparr>o_bounds = box 100 200 200 80, o_label = ''Log in'', o_color = ''#52c41a''\<rparr>]"
proof -
  have h: "visible (attributes hiddenContainer) = Some ''false''" "included loginButton"
    "children loginButton = []"
    by (simp_all add: hiddenContainer_def loginButton_def noAttributes_def box_def included_def
          interactive_def)
  have o: "overlayOf loginButton =
             \<lparr>o_bounds = box 100 200 200 80, o_label = ''Log in'', o_color = ''#52c41a''\<rparr>"
    by (simp add: overlayOf_def loginButton_def noAttributes_def overlayLabel_def
          overlayColor_def)
  have e: "hiddenContainer =
             HierarchyNode (tag hiddenContainer) (attributes hiddenContainer) [loginButton]"
    by (simp add: hiddenContainer_def)
  from extractElementBounds_preorder
         [of _ "attributes hiddenContainer" loginButton "tag hiddenContainer"] h
  have "extractElementBounds
          (HierarchyNode (tag hiddenContainer) (attributes hiddenContainer) [loginButton]) =
        [overlayOf loginButton]"
    by blast
  with e o h show ?thesis by simp
qed


lemma split_from_nonempty: "split_from sep piece s \<noteq> []"
  by (induction s arbitrary: piece) simp_all

lemma pop_Cons: "ps \<noteq> [] \<Longrightarrow> pop (p # ps) = pop ps"
  by (cases "rev ps") (simp_all add: pop_def)

lemma takeWhile_no_sep: "sep \<notin> set xs \<Longrightarrow> takeWhile (\<lambda>c. c \<noteq> sep) xs = xs"
  by (induction xs) auto

lemma lastSegment_Cons:
  "lastSegment sep (c # cs) = (if sep \<in> set cs then lastSegment sep cs
                              else if c = sep then cs else c # cs)"
proof (cases "sep \<in> set cs")
  case True
  then have "takeWhile (\<lambda>c. c \<noteq> sep) (rev cs @ [c]) = takeWhile (\<lambda>c. c \<noteq> sep) (rev cs)"
    by (intro takeWhile_append1 [of sep]) simp_all
  with True show ?thesis by (simp add: lastSegment_def)
next
  case False
  then have "takeWhile (\<lambda>c. c \<noteq> sep) (rev cs @ [c]) = rev cs @ takeWhile (\<lambda>c. c \<noteq> sep) [c]"
    by (intro takeWhile_append2) auto
  with False show ?thesis by (simp add: lastSegment_def)
qed

lemma pop_split_from:
  "pop (split_from sep piece s) = (if sep \<in> set s then lastSegment sep s else rev piece @ s)"
proof (induction s arbitrary: piece)
  case Nil
  show ?case by (simp add: pop_def)
next
  case (Cons c cs)
  show ?case
  proof (cases "c = sep")
    case True
    then show ?thesis
      by (simp add: pop_Cons split_from_nonempty Cons.IH lastSegment_Cons)
  next
    case False
    then show ?thesis
      by (simp add: Cons.IH lastSegment_Cons)
  qed
qed

lemma pop_split: "pop (split sep s) = lastSegment sep s"
proof (cases "sep \<in> set s")
  case True
  then show ?thesis by (simp add: split_def pop_split_from)
next
  case False
  then have "takeWhile (\<lambda>c. c \<noteq> sep) (rev s) = rev s"
    by (simp add: takeWhile_no_sep)
  then have "lastSegment sep s = rev (rev s)"
    unfolding lastSegment_def by (rule arg_cong)
  then have "lastSegment sep s = s"
    by simp
  with False show ?thesis by (simp add: split_def pop_split_from)
qed

lemma overlayLabel_derived: "overlayLabel (attributes n) (tag n) = derivedLabel n"
proof -
  have t: "truthy v = (orEmpty v \<noteq> [])" "truthy v \<Longrightarrow> the v = orEmpty v" for v
    by (cases v; simp add: orEmpty_def)+
  have e: "\<not> truthy v \<Longrightarrow> orEmpty v = []" for v
    by (simp add: t)
  show ?thesis
    by (auto simp: overlayLabel_def derivedLabel_def Let_def pop_split t(2) e truncated_def
          firstNonEmpty_def simp flip: t(1))
qed

text \<open>
  C8 (amended). For every node the extractor includes, in output order, the label comes
  from the first attribute that is present and not empty among text, resource-id (its last
  path segment) and content-description; whichever it comes from, it is cut to 17
  characters and an ellipsis when longer than 20; when that leaves nothing, the label is
  the last dotted segment of the tag.
\<close>

theorem overlay_label_derivation:
  "map o_label (extractElementBounds tree) = map derivedLabel (filter included (nodes tree))"
  by (simp add: extractElementBounds_def traverse_preorder overlayOf_def overlayLabel_derived
        comp_def)

theorem overlay_label_derivation_witness:
  "filter included (nodes hiddenContainer) = [loginButton] \<and>
   derivedLabel loginButton = ''Log in'' \<and>
   map o_label (extractElementBounds hiddenContainer) = [''Log in'']"
proof -
  have f: "filter included (nodes hiddenContainer) = [loginButton]"
    by (simp add: hiddenContainer_def loginButton_def noAttributes_def box_def included_def
          interactive_def hasText_def)
  have d: "derivedLabel loginButton = ''Log in''"
    by (simp add: derivedLabel_def loginButton_def noAttributes_def orEmpty_def truncated_def
          firstNonEmpty_def)
  show ?thesis
    using overlay_label_derivation [of hiddenContainer] f d by simp
qed

text \<open>
  C8 as stated, with the cut applied to the text only: a button whose label source is a
  content-description of 34 characters is labelled with its first 17 characters and an
  ellipsis, not with the content-description.
\<close>

theorem long_content_desc_label:
  "included navigateUp \<and>
   map o_label (extractElementBounds navigateUp) = [''Navigate up to th...''] \<and>
   specLabel navigateUp = ''Navigate up to the previous screen'' \<and>
   map o_label (extractElementBounds navigateUp) \<noteq> [specLabel navigateUp]"
  by (simp add: navigateUp_def extractElementBounds_def noAttributes_def box_def included_def
        interactive_def overlayLabel_def overlayColor_def specLabel_def truncated_def
        orEmpty_def lastSegment_def firstNonEmpty_def split_def pop_def)

section \<open>Properties of the screen stream\<close>

lemma nth_update_same_field:
  assumes "f (g (xs ! i)) = f (xs ! i)"
  shows "f (xs[i := g (xs ! i)] ! j) = f (xs ! j)"
proof (cases "i < length xs")
  case True
  with assms show ?thesis by (cases "i = j") simp_all
next
  case False
  then have "xs[i := g (xs ! i)] = xs" by (simp add: list_update_beyond)
  then show ?thesis by simp
qed

lemma wsClose_fields:
  "currentSerialRef (wsClose ws s) = currentSerialRef s"
  "wsRef (wsClose ws s) = wsRef s"
  "length (sockets (wsClose ws s)) = length (sockets s)"
  "ws_serial (sockets (wsClose ws s) ! i) = ws_serial (sockets s ! i)"
  "closeListeners (sockets (wsClose ws s) ! i) = closeListeners (sockets s ! i)"
  by (auto simp: wsClose_def nth_list_update)

lemma cleanupImageUrl_fields:
  "currentSerialRef (cleanupImageUrl s) = currentSerialRef s"
  "wsRef (cleanupImageUrl s) = wsRef s"
  "sockets (cleanupImageUrl s) = sockets s"
  by (simp_all add: cleanupImageUrl_def)

lemma addCloseListener_fields:
  "currentSerialRef (addCloseListener ws dev s) = currentSerialRef s"
  "wsRef (addCloseListener ws dev s) = wsRef s"
  "length (sockets (addCloseListener ws dev s)) = length (sockets s)"
  "ws_serial (sockets (addCloseListener ws dev s) ! i) = ws_serial (sockets s ! i)"
  "readyState (sockets (addCloseListener ws dev s) ! i) = readyState (sockets s ! i)"
  by (simp_all add: addCloseListener_def nth_update_same_field)

lemma openNewWs_fields:
  "currentSerialRef (openNewWs dev s) = currentSerialRef s"
  "i < length (sockets s) \<Longrightarrow> sockets (openNewWs dev s) ! i = sockets s ! i"
  "length (sockets s) \<le> length (sockets (openNewWs dev s))"
  by (simp_all add: openNewWs_def nth_append)

lemma forceDisconnect_token:
  "wsRef s \<noteq> None \<Longrightarrow> currentSerialRef (forceDisconnect s) = None"
  by (auto simp: forceDisconnect_def cleanupImageUrl_fields wsClose_fields)

lemma forceDisconnect_wsRef: "wsRef (forceDisconnect s) = None"
  by (cases "wsRef s") (simp_all add: forceDisconnect_def cleanupImageUrl_fields wsClose_fields)

lemma streamCleanup_token: "currentSerialRef (streamCleanup s) = None"
  by (cases "wsRef s")
     (simp_all add: streamCleanup_def Let_def cleanupImageUrl_fields wsClose_fields)

lemma streamCleanup_wsRef: "wsRef (streamCleanup s) = None"
  by (cases "wsRef s")
     (simp_all add: streamCleanup_def Let_def cleanupImageUrl_fields wsClose_fields)

lemma streamEffect_token:
  "truthy (deviceSerial s) \<Longrightarrow> currentSerialRef (streamEffect s) = deviceSerial s"
  by (cases "deviceSerial s"; cases "wsRef s")
     (simp_all add: streamEffect_def Let_def openNewWs_fields wsClose_fields
        addCloseListener_fields cleanupImageUrl_fields)

lemma streamEffect_serial:
  assumes "truthy (deviceSerial s)" and "ws < length (sockets s)"
  shows "ws_serial (sockets (streamEffect s) ! ws) = ws_serial (sockets s ! ws)"
  using assms
  by (cases "deviceSerial s"; cases "wsRef s")
     (simp_all add: streamEffect_def Let_def openNewWs_fields wsClose_fields
        addCloseListener_fields cleanupImageUrl_fields)

text \<open>
  C3. A frame that arrives on a socket whose serial is no longer the current serial is
  dropped: the message handler returns the state as it found it, so the displayed image,
  its URL and the arrival time stay as they were, and the handler has no failing path.
  This is the situation after \<open>forceDisconnect\<close> on a live socket and after the cleanup
  of the effect, which reset the current serial, and for the sockets of another device
  after the effect has run for a new one.
\<close>

theorem stale_frame_dropped:
  "(currentSerialRef s \<noteq> Some (ws_serial (sockets s ! ws)) \<longrightarrow>
      ws_onmessage ws now url s = s \<and> deliverMessage ws now url s = s) \<and>
   (wsRef s \<noteq> None \<longrightarrow>
      ws_onmessage ws now url (forceDisconnect s) = forceDisconnect s) \<and>
   ws_onmessage ws now url (streamCleanup s) = streamCleanup s \<and>
   (truthy (deviceSerial s) \<and> ws < length (sockets s) \<and>
    deviceSerial s \<noteq> Some (ws_serial (sockets s ! ws)) \<longrightarrow>
      ws_onmessage ws now url (streamEffect s) = streamEffect s)"
proof -
  have a: "ws_onmessage ws now url t = t \<and> deliverMessage ws now url t = t"
    if "currentSerialRef t \<noteq> Some (ws_serial (sockets t ! ws))" for t
    using that by (simp add: ws_onmessage_def deliverMessage_def)
  have b: "ws_onmessage ws now url (forceDisconnect s) = forceDisconnect s" if "wsRef s \<noteq> None"
    by (rule a [THEN conjunct1]) (simp add: forceDisconnect_token [OF that])
  have c: "ws_onmessage ws now url (streamCleanup s) = streamCleanup s"
    by (rule a [THEN conjunct1]) (simp add: streamCleanup_token)
  have d: "ws_onmessage ws now url (streamEffect s) = streamEffect s"
    if "truthy (deviceSerial s)" "ws < length (sockets s)"
      "deviceSerial s \<noteq> Some (ws_serial (sockets s ! ws))"
  proof (rule a [THEN conjunct1])
    show "currentSerialRef (streamEffect s) \<noteq> Some (ws_serial (sockets (streamEffect s) ! ws))"
      using that by (simp add: streamEffect_token streamEffect_serial)
  qed
  from a b c d show ?thesis by blast
qed

lemma streaming_state:
  "streaming = (mounted (Some ''emulator-5554''))
     \<lparr>imageUrl := Some ''blob:frame-1'', isConnected := True,
      wsRef := Some 0, currentSerialRef := Some ''emulator-5554'',
      imageUrlRef := Some ''blob:frame-1'', frameRecvTsRef := 1000,
      sockets := [\<lparr>ws_serial = ''emulator-5554'', readyState = OPEN, closeListeners = []\<rparr>]\<rparr>"
  by (simp add: streaming_def commitEffect_def mounted_def streamEffect_def openNewWs_def
        newSocket_def deliverOpen_def setReadyState_def ws_onopen_def deliverMessage_def
        ws_onmessage_def Let_def)

theorem stale_frame_dropped_witness:
  "wsRef streaming \<noteq> None \<and>
   imageUrl (forceDisconnect streaming) = None \<and>
   currentSerialRef (forceDisconnect streaming) \<noteq>
     Some (ws_serial (sockets (forceDisconnect streaming) ! 0)) \<and>
   ws_onmessage 0 2000 ''blob:frame-2'' (forceDisconnect streaming) = forceDisconnect streaming \<and>
   imageUrl (ws_onmessage 0 2000 ''blob:frame-2'' (forceDisconnect streaming)) = None \<and>
   deliverMessage 0 2000 ''blob:frame-2'' (forceDisconnect streaming) = forceDisconnect streaming"
proof -
  have w: "wsRef streaming \<noteq> None"
    by (simp add: streaming_state)
  have f: "forceDisconnect streaming =
             streaming\<lparr>imageUrl := None, isConnected := False, wsRef := None,
               currentSerialRef := None, imageUrlRef := None,
               sockets := [\<lparr>ws_serial = ''emulator-5554'', readyState = CLOSING,
                             closeListeners = []\<rparr>]\<rparr>"
    by (simp add: streaming_state forceDisconnect_def wsClose_def cleanupImageUrl_def mounted_def)
  have t: "currentSerialRef (forceDisconnect streaming) \<noteq>
             Some (ws_serial (sockets (forceDisconnect streaming) ! 0))"
    by (simp add: f)
  have i: "imageUrl (forceDisconnect streaming) = None"
    by (simp add: f)
  show ?thesis
    using stale_frame_dropped [of streaming 0 2000 "''blob:frame-2''"]
      stale_frame_dropped [of "forceDisconnect streaming" 0 2000 "''blob:frame-2''"] w t i
    by simp
qed

lemma streamEffect_immediate:
  assumes "deviceSerial s = Some dev" and "dev \<noteq> []"
    and "wsRef s = None \<or> (wsRef s = Some prev \<and> readyState (sockets s ! prev) = CLOSED)"
  shows "streamEffect s =
           s\<lparr>currentSerialRef := Some dev, wsRef := Some (length (sockets s)),
             isConnected := False, loading := True,
             sockets := sockets s @ [newSocket dev]\<rparr>"
  using assms by (auto simp: streamEffect_def Let_def openNewWs_def)

lemma streamCleanup_deviceSerial: "deviceSerial (streamCleanup s) = deviceSerial s"
  by (cases "wsRef s") (simp_all add: streamCleanup_def Let_def cleanupImageUrl_def wsClose_def)

lemma streamCleanup_closes:
  assumes "wsRef s = Some old" and "old < length (sockets s)"
    and "readyState (sockets s ! old) \<in> {CONNECTING, OPEN}"
  shows "sockets (streamCleanup s) = (sockets s)[old := (sockets s ! old)\<lparr>readyState := CLOSING\<rparr>]"
  using assms by (simp add: streamCleanup_def Let_def cleanupImageUrl_fields wsClose_def)

text \<open>
  Whatever the state in which the selected device changes from one device to another,
  the effect finds \<open>wsRef\<close> emptied by the cleanup of the run before it. Its branch
  \<open>Wait for old WS to fully close before opening new one\<close> is therefore not taken, and the
  socket of the new device is created in the same commit, next to the sockets the cleanup
  left, of which the one it closed is still closing.
\<close>

lemma effect_run_never_waits:
  assumes "truthy lastSerial" and "deviceSerial s = Some dev" and "dev \<noteq> []"
    and "lastSerial \<noteq> Some dev"
  shows "wsRef (streamCleanup s) = None"
    and "sockets (commitEffect lastSerial s) = sockets (streamCleanup s) @ [newSocket dev]"
proof -
  show w: "wsRef (streamCleanup s) = None"
    by (rule streamCleanup_wsRef)
  have d: "deviceSerial (streamCleanup s) = Some dev"
    by (simp add: streamCleanup_deviceSerial assms(2))
  have "commitEffect lastSerial s = streamEffect (streamCleanup s)"
    using assms by (auto simp: commitEffect_def)
  then show "sockets (commitEffect lastSerial s) = sockets (streamCleanup s) @ [newSocket dev]"
    using streamEffect_immediate [OF d assms(3), of 0] w by simp
qed

lemma switchDevice_streaming:
  "sockets (switchDevice ''00008110'' streaming) =
     [\<lparr>ws_serial = ''emulator-5554'', readyState = CLOSING, closeListeners = []\<rparr>,
      \<lparr>ws_serial = ''00008110'', readyState = CONNECTING, closeListeners = []\<rparr>]"
  by (simp add: switchDevice_def commitEffect_def handleDeviceChange_def forceDisconnect_def
        streamCleanup_def streamEffect_def openNewWs_def newSocket_def wsClose_def
        cleanupImageUrl_def streaming_state mounted_def Let_def)

lemma propChange_streaming:
  "sockets (commitEffect (Some ''emulator-5554'')
              (streaming\<lparr>deviceSerial := Some ''00008110''\<rparr>)) =
     [\<lparr>ws_serial = ''emulator-5554'', readyState = CLOSING, closeListeners = []\<rparr>,
      \<lparr>ws_serial = ''00008110'', readyState = CONNECTING, closeListeners = []\<rparr>]"
  by (simp add: commitEffect_def streamCleanup_def streamEffect_def openNewWs_def newSocket_def
        wsClose_def cleanupImageUrl_def streaming_state mounted_def Let_def)

text \<open>
  C2, evaluated on the code. The canvas streams from an Android device, its socket is
  open, and the operator selects an iOS device. \<open>handleDeviceChange\<close> and the commit of
  the new prop leave two sockets: the one of the Android device, closing, its close event
  not yet delivered, and the one of the iOS device, already created and connecting. The
  same holds when only the prop changes, without \<open>forceDisconnect\<close>: the cleanup has
  emptied \<open>wsRef\<close>, so the effect does not wait for the close event although its comment
  says it does. The specification asks for the socket of the new device to be created
  only after the close event of the old one.
\<close>

theorem switch_opens_while_closing:
  "readyState (sockets streaming ! 0) = OPEN \<and>
   map ws_serial (sockets (switchDevice ''00008110'' streaming)) =
     [''emulator-5554'', ''00008110''] \<and>
   map readyState (sockets (switchDevice ''00008110'' streaming)) = [CLOSING, CONNECTING] \<and>
   map readyState
     (sockets (commitEffect (Some ''emulator-5554'')
                 (streaming\<lparr>deviceSerial := Some ''00008110''\<rparr>))) = [CLOSING, CONNECTING]"
proof -
  have r: "readyState (sockets streaming ! 0) = OPEN"
    by (simp add: streaming_state)
  show ?thesis
    by (simp add: switchDevice_streaming propChange_streaming r)
qed

end
